theory Spec2Isabelle
  imports Main "HOL-Library.Word" "HOL-Library.AList"
begin

unbundle bit_operations_syntax

section \<open>Values and the Python dictionary\<close>

text \<open>
  A UUID is a 128-bit value. A \<open>datetime\<close> is a count of microseconds. A Python
  \<open>float\<close> is an IEEE 754 binary64 bit pattern; the handlers only ever compare floats,
  so only \<open>==\<close> is modelled.
\<close>

type_synonym UUID = "128 word"
type_synonym datetime = int
type_synonym pyfloat = "64 word"

definition float_is_nan :: "pyfloat \<Rightarrow> bool" where
  "float_is_nan w =
     (w AND 0x7FF0000000000000 = 0x7FF0000000000000 \<and> w AND 0x000FFFFFFFFFFFFF \<noteq> 0)"

definition float_is_zero :: "pyfloat \<Rightarrow> bool" where
  "float_is_zero w = (w AND 0x7FFFFFFFFFFFFFFF = 0)"

definition float_eq :: "pyfloat \<Rightarrow> pyfloat \<Rightarrow> bool" where
  \<comment> \<open>Python's \<open>a == b\<close> on floats: a NaN equals nothing, the two zeros are equal.\<close>
  "float_eq a b =
     (if float_is_nan a \<or> float_is_nan b then False
      else if float_is_zero a \<and> float_is_zero b then True
      else a = b)"

text \<open>
  What a handler can raise: \<open>HTTPException(status_code, detail)\<close>, pydantic's
  \<open>ValidationError\<close> when a model is built from a value its field type refuses, and
  \<open>KeyError\<close> from \<open>d[k]\<close> on a missing key.
\<close>

datatype error = HTTPException nat string | ValidationError | KeyError

text \<open>
  A Python \<open>dict\<close> keeps its keys in insertion order; assigning to a key that is present
  replaces the value where it stands, assigning to a new key appends.
\<close>

type_synonym ('k, 'v) dict = "('k \<times> 'v) list"

definition dict_contains :: "('k, 'v) dict \<Rightarrow> 'k \<Rightarrow> bool" where
  "dict_contains d k = (map_of d k \<noteq> None)"

definition dict_getitem :: "('k, 'v) dict \<Rightarrow> 'k \<Rightarrow> error + 'v" where
  "dict_getitem d k = (case map_of d k of None \<Rightarrow> Inl KeyError | Some v \<Rightarrow> Inr v)"

definition dict_setitem :: "('k, 'v) dict \<Rightarrow> 'k \<Rightarrow> 'v \<Rightarrow> ('k, 'v) dict" where
  "dict_setitem d k v = AList.update k v d"

definition dict_values :: "('k, 'v) dict \<Rightarrow> 'v list" where
  "dict_values d = map snd d"

definition dict_wf :: "('k, 'v) dict \<Rightarrow> bool" where
  \<comment> \<open>every key occurs once, as in any Python \<open>dict\<close>\<close>
  "dict_wf d = distinct (map fst d)"

definition count_key :: "('k, 'v) dict \<Rightarrow> 'k \<Rightarrow> nat" where
  "count_key d k = length (filter (\<lambda>kv. fst kv = k) d)"

text \<open>
  \<open>model_dump()\<close> yields a \<open>dict\<close> from field names to values, and
  \<open>stored.update(other)\<close> overwrites, key by key, what \<open>other\<close> holds. Such a
  \<open>dict\<close> is modelled as a record with one optional entry per field name: \<open>None\<close>
  when the key is absent. \<open>overlay old new\<close> is \<open>dict.update\<close> at one key.
\<close>

definition overlay :: "'a option \<Rightarrow> 'a option \<Rightarrow> 'a option" where
  "overlay old new = (case new of None \<Rightarrow> old | Some v \<Rightarrow> Some v)"

text \<open>
  The default factories of the models, \<open>uuid4\<close> and \<open>datetime.utcnow\<close>, read the
  environment. A model's fields are filled in declaration order: \<open>id\<close>,
  \<open>created_at\<close>, \<open>updated_at\<close>; the environment says what each call would return.
\<close>

record env =
  env_uuid4 :: UUID
  env_utcnow1 :: datetime
  env_utcnow2 :: datetime

section \<open>models/family\_history.py\<close>

record FamilyHistoryBase =
  fh_id :: UUID
  fh_father :: "string option"
  fh_mother :: "string option"
  fh_sister :: "string option"
  fh_brother :: "string option"

type_synonym FamilyHistoryCreate = FamilyHistoryBase

record FamilyHistoryRead = FamilyHistoryBase +
  fh_created_at :: datetime
  fh_updated_at :: datetime

text \<open>
  \<open>FamilyHistoryUpdate\<close> inherits \<open>FamilyHistoryBase\<close>, so it has the field \<open>id\<close>
  too. The handler reads an update only through \<open>model_dump(exclude_unset=True)\<close>, so
  each field is \<open>None\<close> when the request body did not set it and \<open>Some v\<close> when it
  did (\<open>Some None\<close> is an explicit \<open>null\<close>).
\<close>

record FamilyHistoryUpdate =
  fhu_id :: "UUID option"
  fhu_father :: "string option option"
  fhu_mother :: "string option option"
  fhu_sister :: "string option option"
  fhu_brother :: "string option option"

record FamilyHistoryDict =
  fhd_id :: "UUID option"
  fhd_father :: "string option option"
  fhd_mother :: "string option option"
  fhd_sister :: "string option option"
  fhd_brother :: "string option option"
  fhd_created_at :: "datetime option"
  fhd_updated_at :: "datetime option"

definition FamilyHistoryCreate_model_dump :: "FamilyHistoryCreate \<Rightarrow> FamilyHistoryDict" where
  "FamilyHistoryCreate_model_dump m =
     \<lparr>fhd_id = Some (fh_id m), fhd_father = Some (fh_father m), fhd_mother = Some (fh_mother m),
      fhd_sister = Some (fh_sister m), fhd_brother = Some (fh_brother m),
      fhd_created_at = None, fhd_updated_at = None\<rparr>"

definition FamilyHistoryRead_model_dump :: "FamilyHistoryRead \<Rightarrow> FamilyHistoryDict" where
  "FamilyHistoryRead_model_dump m =
     \<lparr>fhd_id = Some (fh_id m), fhd_father = Some (fh_father m), fhd_mother = Some (fh_mother m),
      fhd_sister = Some (fh_sister m), fhd_brother = Some (fh_brother m),
      fhd_created_at = Some (fh_created_at m), fhd_updated_at = Some (fh_updated_at m)\<rparr>"

definition FamilyHistoryUpdate_model_dump_exclude_unset ::
    "FamilyHistoryUpdate \<Rightarrow> FamilyHistoryDict" where
  "FamilyHistoryUpdate_model_dump_exclude_unset u =
     \<lparr>fhd_id = fhu_id u, fhd_father = fhu_father u, fhd_mother = fhu_mother u,
      fhd_sister = fhu_sister u, fhd_brother = fhu_brother u,
      fhd_created_at = None, fhd_updated_at = None\<rparr>"

definition FamilyHistoryDict_update ::
    "FamilyHistoryDict \<Rightarrow> FamilyHistoryDict \<Rightarrow> FamilyHistoryDict" where
  "FamilyHistoryDict_update stored other =
     \<lparr>fhd_id = overlay (fhd_id stored) (fhd_id other),
      fhd_father = overlay (fhd_father stored) (fhd_father other),
      fhd_mother = overlay (fhd_mother stored) (fhd_mother other),
      fhd_sister = overlay (fhd_sister stored) (fhd_sister other),
      fhd_brother = overlay (fhd_brother stored) (fhd_brother other),
      fhd_created_at = overlay (fhd_created_at stored) (fhd_created_at other),
      fhd_updated_at = overlay (fhd_updated_at stored) (fhd_updated_at other)\<rparr>"

definition FamilyHistoryRead_init :: "env \<Rightarrow> FamilyHistoryDict \<Rightarrow> FamilyHistoryRead" where
  \<comment> \<open>\<open>FamilyHistoryRead(**d)\<close>: a key of \<open>d\<close> gives the field, a missing key its default\<close>
  "FamilyHistoryRead_init e d =
     \<lparr>fh_id = (case fhd_id d of None \<Rightarrow> env_uuid4 e | Some v \<Rightarrow> v),
      fh_father = (case fhd_father d of None \<Rightarrow> None | Some v \<Rightarrow> v),
      fh_mother = (case fhd_mother d of None \<Rightarrow> None | Some v \<Rightarrow> v),
      fh_sister = (case fhd_sister d of None \<Rightarrow> None | Some v \<Rightarrow> v),
      fh_brother = (case fhd_brother d of None \<Rightarrow> None | Some v \<Rightarrow> v),
      fh_created_at = (case fhd_created_at d of None \<Rightarrow> env_utcnow1 e | Some v \<Rightarrow> v),
      fh_updated_at = (case fhd_updated_at d of None \<Rightarrow> env_utcnow2 e | Some v \<Rightarrow> v)\<rparr>"

section \<open>models/account\_balance.py\<close>

text \<open>
  \<open>account_balance: float = Field(None, ...)\<close>: the field's type is \<open>float\<close> and its
  default is \<open>None\<close>. Pydantic does not validate a default, so a model built without the
  key holds \<open>None\<close>; a \<open>None\<close> that is passed in is validated and refused.
\<close>

record AccountBalanceBase =
  ab_id :: UUID
  ab_account_balance :: "pyfloat option"

type_synonym AccountBalanceCreate = AccountBalanceBase

record AccountBalanceRead = AccountBalanceBase +
  ab_created_at :: datetime
  ab_updated_at :: datetime

record AccountBalanceUpdate =
  abu_id :: "UUID option"
  abu_account_balance :: "pyfloat option option"

record AccountBalanceDict =
  abd_id :: "UUID option"
  abd_account_balance :: "pyfloat option option"
  abd_created_at :: "datetime option"
  abd_updated_at :: "datetime option"

definition AccountBalanceCreate_model_dump :: "AccountBalanceCreate \<Rightarrow> AccountBalanceDict" where
  "AccountBalanceCreate_model_dump m =
     \<lparr>abd_id = Some (ab_id m), abd_account_balance = Some (ab_account_balance m),
      abd_created_at = None, abd_updated_at = None\<rparr>"

definition AccountBalanceRead_model_dump :: "AccountBalanceRead \<Rightarrow> AccountBalanceDict" where
  "AccountBalanceRead_model_dump m =
     \<lparr>abd_id = Some (ab_id m), abd_account_balance = Some (ab_account_balance m),
      abd_created_at = Some (ab_created_at m), abd_updated_at = Some (ab_updated_at m)\<rparr>"

definition AccountBalanceUpdate_model_dump_exclude_unset ::
    "AccountBalanceUpdate \<Rightarrow> AccountBalanceDict" where
  "AccountBalanceUpdate_model_dump_exclude_unset u =
     \<lparr>abd_id = abu_id u, abd_account_balance = abu_account_balance u,
      abd_created_at = None, abd_updated_at = None\<rparr>"

definition AccountBalanceDict_update ::
    "AccountBalanceDict \<Rightarrow> AccountBalanceDict \<Rightarrow> AccountBalanceDict" where
  "AccountBalanceDict_update stored other =
     \<lparr>abd_id = overlay (abd_id stored) (abd_id other),
      abd_account_balance = overlay (abd_account_balance stored) (abd_account_balance other),
      abd_created_at = overlay (abd_created_at stored) (abd_created_at other),
      abd_updated_at = overlay (abd_updated_at stored) (abd_updated_at other)\<rparr>"

definition AccountBalanceRead_init :: "env \<Rightarrow> AccountBalanceDict \<Rightarrow> error + AccountBalanceRead" where
  "AccountBalanceRead_init e d =
     (case abd_account_balance d of
        Some None \<Rightarrow> Inl ValidationError
      | _ \<Rightarrow>
        Inr \<lparr>ab_id = (case abd_id d of None \<Rightarrow> env_uuid4 e | Some v \<Rightarrow> v),
             ab_account_balance = (case abd_account_balance d of None \<Rightarrow> None | Some v \<Rightarrow> v),
             ab_created_at = (case abd_created_at d of None \<Rightarrow> env_utcnow1 e | Some v \<Rightarrow> v),
             ab_updated_at = (case abd_updated_at d of None \<Rightarrow> env_utcnow2 e | Some v \<Rightarrow> v)\<rparr>)"

section \<open>models/address.py and models/person.py\<close>

text \<open>
  Modelled from the spec: \<open>models/address.py\<close> (\<open>AddressCreate\<close>, \<open>AddressRead\<close>,
  \<open>AddressUpdate\<close>) is not among the sources. The field names are those \<open>main.py\<close>
  reads (\<open>id\<close>, \<open>street\<close>, \<open>city\<close>, \<open>state\<close>, \<open>postal_code\<close>, \<open>country\<close>); the
  shape is the one the spec gives every entity: an identifier, payload fields that are
  strings and may be null, and the two timestamps of the Read representation. The update
  payload has the payload fields, each optional.
\<close>

record AddressBase =
  addr_id :: UUID
  addr_street :: "string option"
  addr_city :: "string option"
  addr_state :: "string option"
  addr_postal_code :: "string option"
  addr_country :: "string option"

type_synonym AddressCreate = AddressBase

record AddressRead = AddressBase +
  addr_created_at :: datetime
  addr_updated_at :: datetime

record AddressUpdate =
  addru_street :: "string option option"
  addru_city :: "string option option"
  addru_state :: "string option option"
  addru_postal_code :: "string option option"
  addru_country :: "string option option"

record AddressDict =
  addrd_id :: "UUID option"
  addrd_street :: "string option option"
  addrd_city :: "string option option"
  addrd_state :: "string option option"
  addrd_postal_code :: "string option option"
  addrd_country :: "string option option"
  addrd_created_at :: "datetime option"
  addrd_updated_at :: "datetime option"

definition AddressCreate_model_dump :: "AddressCreate \<Rightarrow> AddressDict" where
  "AddressCreate_model_dump m =
     \<lparr>addrd_id = Some (addr_id m), addrd_street = Some (addr_street m),
      addrd_city = Some (addr_city m), addrd_state = Some (addr_state m),
      addrd_postal_code = Some (addr_postal_code m), addrd_country = Some (addr_country m),
      addrd_created_at = None, addrd_updated_at = None\<rparr>"

definition AddressRead_model_dump :: "AddressRead \<Rightarrow> AddressDict" where
  "AddressRead_model_dump m =
     \<lparr>addrd_id = Some (addr_id m), addrd_street = Some (addr_street m),
      addrd_city = Some (addr_city m), addrd_state = Some (addr_state m),
      addrd_postal_code = Some (addr_postal_code m), addrd_country = Some (addr_country m),
      addrd_created_at = Some (addr_created_at m), addrd_updated_at = Some (addr_updated_at m)\<rparr>"

definition AddressUpdate_model_dump_exclude_unset :: "AddressUpdate \<Rightarrow> AddressDict" where
  "AddressUpdate_model_dump_exclude_unset u =
     \<lparr>addrd_id = None, addrd_street = addru_street u, addrd_city = addru_city u,
      addrd_state = addru_state u, addrd_postal_code = addru_postal_code u,
      addrd_country = addru_country u, addrd_created_at = None, addrd_updated_at = None\<rparr>"

definition AddressDict_update :: "AddressDict \<Rightarrow> AddressDict \<Rightarrow> AddressDict" where
  "AddressDict_update stored other =
     \<lparr>addrd_id = overlay (addrd_id stored) (addrd_id other),
      addrd_street = overlay (addrd_street stored) (addrd_street other),
      addrd_city = overlay (addrd_city stored) (addrd_city other),
      addrd_state = overlay (addrd_state stored) (addrd_state other),
      addrd_postal_code = overlay (addrd_postal_code stored) (addrd_postal_code other),
      addrd_country = overlay (addrd_country stored) (addrd_country other),
      addrd_created_at = overlay (addrd_created_at stored) (addrd_created_at other),
      addrd_updated_at = overlay (addrd_updated_at stored) (addrd_updated_at other)\<rparr>"

definition AddressRead_init :: "env \<Rightarrow> AddressDict \<Rightarrow> AddressRead" where
  "AddressRead_init e d =
     \<lparr>addr_id = (case addrd_id d of None \<Rightarrow> env_uuid4 e | Some v \<Rightarrow> v),
      addr_street = (case addrd_street d of None \<Rightarrow> None | Some v \<Rightarrow> v),
      addr_city = (case addrd_city d of None \<Rightarrow> None | Some v \<Rightarrow> v),
      addr_state = (case addrd_state d of None \<Rightarrow> None | Some v \<Rightarrow> v),
      addr_postal_code = (case addrd_postal_code d of None \<Rightarrow> None | Some v \<Rightarrow> v),
      addr_country = (case addrd_country d of None \<Rightarrow> None | Some v \<Rightarrow> v),
      addr_created_at = (case addrd_created_at d of None \<Rightarrow> env_utcnow1 e | Some v \<Rightarrow> v),
      addr_updated_at = (case addrd_updated_at d of None \<Rightarrow> env_utcnow2 e | Some v \<Rightarrow> v)\<rparr>"

text \<open>
  A calendar date, and Python's \<open>str\<close> of one: \<open>YYYY-MM-DD\<close>, zero-padded
  (\<open>date.isoformat\<close>; a year is between 1 and 9999). \<open>str(None)\<close> is \<open>None\<close>.
\<close>

record date =
  date_year :: nat
  date_month :: nat
  date_day :: nat

definition digit :: "nat \<Rightarrow> char" where
  "digit n = ''0123456789'' ! (n mod 10)"

definition date_isoformat :: "date \<Rightarrow> string" where
  "date_isoformat d =
     [digit (date_year d div 1000), digit (date_year d div 100), digit (date_year d div 10),
      digit (date_year d), CHR ''-'', digit (date_month d div 10), digit (date_month d),
      CHR ''-'', digit (date_day d div 10), digit (date_day d)]"

definition str_date :: "date option \<Rightarrow> string" where
  "str_date v = (case v of None \<Rightarrow> ''None'' | Some d \<Rightarrow> date_isoformat d)"

text \<open>
  Modelled from the spec: \<open>models/person.py\<close> (\<open>PersonCreate\<close>, \<open>PersonRead\<close>,
  \<open>PersonUpdate\<close>) is not among the sources. The field names are those \<open>main.py\<close>
  reads; a person has identity fields that are strings and may be null, a birth date and
  an embedded ordered list of address values. A creation payload "may or may not include"
  an identifier, and create "assigns an identifier if absent": \<open>pc_id\<close> is \<open>None\<close>
  when \<open>person.model_dump()\<close> has no \<open>id\<close>, and \<open>PersonRead\<close> then takes its default.
\<close>

record PersonCreate =
  pc_id :: "UUID option"
  pc_uni :: "string option"
  pc_first_name :: "string option"
  pc_last_name :: "string option"
  pc_email :: "string option"
  pc_phone :: "string option"
  pc_birth_date :: "date option"
  pc_addresses :: "AddressBase list"

record PersonRead =
  p_id :: UUID
  p_uni :: "string option"
  p_first_name :: "string option"
  p_last_name :: "string option"
  p_email :: "string option"
  p_phone :: "string option"
  p_birth_date :: "date option"
  p_addresses :: "AddressBase list"
  p_created_at :: datetime
  p_updated_at :: datetime

record PersonUpdate =
  pu_uni :: "string option option"
  pu_first_name :: "string option option"
  pu_last_name :: "string option option"
  pu_email :: "string option option"
  pu_phone :: "string option option"
  pu_birth_date :: "date option option"
  pu_addresses :: "AddressBase list option"

record PersonDict =
  pd_id :: "UUID option"
  pd_uni :: "string option option"
  pd_first_name :: "string option option"
  pd_last_name :: "string option option"
  pd_email :: "string option option"
  pd_phone :: "string option option"
  pd_birth_date :: "date option option"
  pd_addresses :: "AddressBase list option"
  pd_created_at :: "datetime option"
  pd_updated_at :: "datetime option"

definition PersonCreate_model_dump :: "PersonCreate \<Rightarrow> PersonDict" where
  "PersonCreate_model_dump m =
     \<lparr>pd_id = pc_id m, pd_uni = Some (pc_uni m), pd_first_name = Some (pc_first_name m),
      pd_last_name = Some (pc_last_name m), pd_email = Some (pc_email m),
      pd_phone = Some (pc_phone m), pd_birth_date = Some (pc_birth_date m),
      pd_addresses = Some (pc_addresses m), pd_created_at = None, pd_updated_at = None\<rparr>"

definition PersonRead_model_dump :: "PersonRead \<Rightarrow> PersonDict" where
  "PersonRead_model_dump m =
     \<lparr>pd_id = Some (p_id m), pd_uni = Some (p_uni m), pd_first_name = Some (p_first_name m),
      pd_last_name = Some (p_last_name m), pd_email = Some (p_email m),
      pd_phone = Some (p_phone m), pd_birth_date = Some (p_birth_date m),
      pd_addresses = Some (p_addresses m), pd_created_at = Some (p_created_at m),
      pd_updated_at = Some (p_updated_at m)\<rparr>"

definition PersonUpdate_model_dump_exclude_unset :: "PersonUpdate \<Rightarrow> PersonDict" where
  "PersonUpdate_model_dump_exclude_unset u =
     \<lparr>pd_id = None, pd_uni = pu_uni u, pd_first_name = pu_first_name u,
      pd_last_name = pu_last_name u, pd_email = pu_email u, pd_phone = pu_phone u,
      pd_birth_date = pu_birth_date u, pd_addresses = pu_addresses u,
      pd_created_at = None, pd_updated_at = None\<rparr>"

definition PersonDict_update :: "PersonDict \<Rightarrow> PersonDict \<Rightarrow> PersonDict" where
  "PersonDict_update stored other =
     \<lparr>pd_id = overlay (pd_id stored) (pd_id other),
      pd_uni = overlay (pd_uni stored) (pd_uni other),
      pd_first_name = overlay (pd_first_name stored) (pd_first_name other),
      pd_last_name = overlay (pd_last_name stored) (pd_last_name other),
      pd_email = overlay (pd_email stored) (pd_email other),
      pd_phone = overlay (pd_phone stored) (pd_phone other),
      pd_birth_date = overlay (pd_birth_date stored) (pd_birth_date other),
      pd_addresses = overlay (pd_addresses stored) (pd_addresses other),
      pd_created_at = overlay (pd_created_at stored) (pd_created_at other),
      pd_updated_at = overlay (pd_updated_at stored) (pd_updated_at other)\<rparr>"

definition PersonRead_init :: "env \<Rightarrow> PersonDict \<Rightarrow> PersonRead" where
  "PersonRead_init e d =
     \<lparr>p_id = (case pd_id d of None \<Rightarrow> env_uuid4 e | Some v \<Rightarrow> v),
      p_uni = (case pd_uni d of None \<Rightarrow> None | Some v \<Rightarrow> v),
      p_first_name = (case pd_first_name d of None \<Rightarrow> None | Some v \<Rightarrow> v),
      p_last_name = (case pd_last_name d of None \<Rightarrow> None | Some v \<Rightarrow> v),
      p_email = (case pd_email d of None \<Rightarrow> None | Some v \<Rightarrow> v),
      p_phone = (case pd_phone d of None \<Rightarrow> None | Some v \<Rightarrow> v),
      p_birth_date = (case pd_birth_date d of None \<Rightarrow> None | Some v \<Rightarrow> v),
      p_addresses = (case pd_addresses d of None \<Rightarrow> [] | Some v \<Rightarrow> v),
      p_created_at = (case pd_created_at d of None \<Rightarrow> env_utcnow1 e | Some v \<Rightarrow> v),
      p_updated_at = (case pd_updated_at d of None \<Rightarrow> env_utcnow2 e | Some v \<Rightarrow> v)\<rparr>"

section \<open>main.py: the four stores\<close>

record state =
  persons :: "(UUID, PersonRead) dict"
  family_histories :: "(UUID, FamilyHistoryRead) dict"
  account_balances :: "(UUID, AccountBalanceRead) dict"
  addresses :: "(UUID, AddressRead) dict"

definition init_state :: state where
  "init_state = \<lparr>persons = [], family_histories = [], account_balances = [], addresses = []\<rparr>"

text \<open>
  A handler takes its arguments, the environment its models' defaults read, and the
  stores; it returns what it returns or raises, and the stores as it leaves them.
\<close>

subsection \<open>Family History endpoints\<close>

definition create_family_history ::
    "FamilyHistoryCreate \<Rightarrow> env \<Rightarrow> state \<Rightarrow> (error + FamilyHistoryRead) \<times> state" where
  "create_family_history family_history e s =
     (if dict_contains (family_histories s) (fh_id family_history)
      then (Inl (HTTPException 400 ''Family History with this ID already exists''), s)
      else
        let history_read = FamilyHistoryRead_init e (FamilyHistoryCreate_model_dump family_history);
            s' = s\<lparr>family_histories :=
                     dict_setitem (family_histories s) (fh_id history_read) history_read\<rparr>
        in (dict_getitem (family_histories s') (fh_id history_read), s'))"

definition get_family_histories ::
    "string option \<Rightarrow> string option \<Rightarrow> string option \<Rightarrow> string option \<Rightarrow> state
       \<Rightarrow> (error + FamilyHistoryRead list) \<times> state" where
  "get_family_histories father mother sister brother s =
     (let results = dict_values (family_histories s);
          results = (case father of None \<Rightarrow> results
                     | Some v \<Rightarrow> filter (\<lambda>p. fh_father p = Some v) results);
          results = (case mother of None \<Rightarrow> results
                     | Some v \<Rightarrow> filter (\<lambda>p. fh_mother p = Some v) results);
          results = (case sister of None \<Rightarrow> results
                     | Some v \<Rightarrow> filter (\<lambda>p. fh_sister p = Some v) results);
          results = (case brother of None \<Rightarrow> results
                     | Some v \<Rightarrow> filter (\<lambda>p. fh_brother p = Some v) results)
      in (Inr results, s))"

definition get_family_history :: "UUID \<Rightarrow> state \<Rightarrow> (error + FamilyHistoryRead) \<times> state" where
  "get_family_history history_id s =
     (if \<not> dict_contains (family_histories s) history_id
      then (Inl (HTTPException 404 ''Family history not found''), s)
      else (dict_getitem (family_histories s) history_id, s))"

definition update_family_history ::
    "UUID \<Rightarrow> FamilyHistoryUpdate \<Rightarrow> env \<Rightarrow> state \<Rightarrow> (error + FamilyHistoryRead) \<times> state" where
  "update_family_history history_id upd e s =
     (if \<not> dict_contains (family_histories s) history_id
      then (Inl (HTTPException 404 ''Family history not found''), s)
      else
        (case dict_getitem (family_histories s) history_id of
           Inl err \<Rightarrow> (Inl err, s)
         | Inr cur \<Rightarrow>
             let stored = FamilyHistoryRead_model_dump cur;
                 stored = FamilyHistoryDict_update stored
                            (FamilyHistoryUpdate_model_dump_exclude_unset upd);
                 s' = s\<lparr>family_histories :=
                          dict_setitem (family_histories s) history_id
                            (FamilyHistoryRead_init e stored)\<rparr>
             in (dict_getitem (family_histories s') history_id, s')))"

subsection \<open>Account Balance endpoints\<close>

definition create_account_balance ::
    "AccountBalanceCreate \<Rightarrow> env \<Rightarrow> state \<Rightarrow> (error + AccountBalanceRead) \<times> state" where
  "create_account_balance account_balance e s =
     (case AccountBalanceRead_init e (AccountBalanceCreate_model_dump account_balance) of
        Inl err \<Rightarrow> (Inl err, s)
      | Inr balance_read \<Rightarrow>
          let s' = s\<lparr>account_balances :=
                       dict_setitem (account_balances s) (ab_id balance_read) balance_read\<rparr>
          in (dict_getitem (account_balances s') (ab_id balance_read), s'))"

definition get_account_balance ::
    "pyfloat option \<Rightarrow> state \<Rightarrow> (error + AccountBalanceRead list) \<times> state" where
  "get_account_balance account_balance s =
     (let results = dict_values (account_balances s);
          results = (case account_balance of None \<Rightarrow> results
                     | Some v \<Rightarrow>
                         filter (\<lambda>p. case ab_account_balance p of None \<Rightarrow> False
                                      | Some b \<Rightarrow> float_eq b v) results)
      in (Inr results, s))"

definition get_account_balances :: "UUID \<Rightarrow> state \<Rightarrow> (error + AccountBalanceRead) \<times> state" where
  "get_account_balances account_id s =
     (if \<not> dict_contains (account_balances s) account_id
      then (Inl (HTTPException 404 ''Account balance not found''), s)
      else (dict_getitem (account_balances s) account_id, s))"

definition update_account_balance ::
    "UUID \<Rightarrow> AccountBalanceUpdate \<Rightarrow> env \<Rightarrow> state \<Rightarrow> (error + AccountBalanceRead) \<times> state" where
  "update_account_balance account_id upd e s =
     (if \<not> dict_contains (account_balances s) account_id
      then (Inl (HTTPException 404 ''Account balance not found''), s)
      else
        (case dict_getitem (account_balances s) account_id of
           Inl err \<Rightarrow> (Inl err, s)
         | Inr cur \<Rightarrow>
             let stored = AccountBalanceRead_model_dump cur;
                 stored = AccountBalanceDict_update stored
                            (AccountBalanceUpdate_model_dump_exclude_unset upd)
             in (case AccountBalanceRead_init e stored of
                   Inl err \<Rightarrow> (Inl err, s)
                 | Inr r \<Rightarrow>
                     let s' = s\<lparr>account_balances :=
                                  dict_setitem (account_balances s) account_id r\<rparr>
                     in (dict_getitem (account_balances s') account_id, s'))))"

subsection \<open>Address endpoints\<close>

definition create_address ::
    "AddressCreate \<Rightarrow> env \<Rightarrow> state \<Rightarrow> (error + AddressRead) \<times> state" where
  "create_address address e s =
     (if dict_contains (addresses s) (addr_id address)
      then (Inl (HTTPException 400 ''Address with this ID already exists''), s)
      else
        let s' = s\<lparr>addresses :=
                     dict_setitem (addresses s) (addr_id address)
                       (AddressRead_init e (AddressCreate_model_dump address))\<rparr>
        in (dict_getitem (addresses s') (addr_id address), s'))"

definition list_addresses ::
    "string option \<Rightarrow> string option \<Rightarrow> string option \<Rightarrow> string option \<Rightarrow> string option
       \<Rightarrow> state \<Rightarrow> (error + AddressRead list) \<times> state" where
  "list_addresses street city state postal_code country s =
     (let results = dict_values (addresses s);
          results = (case street of None \<Rightarrow> results
                     | Some v \<Rightarrow> filter (\<lambda>a. addr_street a = Some v) results);
          results = (case city of None \<Rightarrow> results
                     | Some v \<Rightarrow> filter (\<lambda>a. addr_city a = Some v) results);
          results = (case state of None \<Rightarrow> results
                     | Some v \<Rightarrow> filter (\<lambda>a. addr_state a = Some v) results);
          results = (case postal_code of None \<Rightarrow> results
                     | Some v \<Rightarrow> filter (\<lambda>a. addr_postal_code a = Some v) results);
          results = (case country of None \<Rightarrow> results
                     | Some v \<Rightarrow> filter (\<lambda>a. addr_country a = Some v) results)
      in (Inr results, s))"

definition get_address :: "UUID \<Rightarrow> state \<Rightarrow> (error + AddressRead) \<times> state" where
  "get_address address_id s =
     (if \<not> dict_contains (addresses s) address_id
      then (Inl (HTTPException 404 ''Address not found''), s)
      else (dict_getitem (addresses s) address_id, s))"

definition update_address ::
    "UUID \<Rightarrow> AddressUpdate \<Rightarrow> env \<Rightarrow> state \<Rightarrow> (error + AddressRead) \<times> state" where
  "update_address address_id upd e s =
     (if \<not> dict_contains (addresses s) address_id
      then (Inl (HTTPException 404 ''Address not found''), s)
      else
        (case dict_getitem (addresses s) address_id of
           Inl err \<Rightarrow> (Inl err, s)
         | Inr cur \<Rightarrow>
             let stored = AddressRead_model_dump cur;
                 stored = AddressDict_update stored (AddressUpdate_model_dump_exclude_unset upd);
                 s' = s\<lparr>addresses :=
                          dict_setitem (addresses s) address_id (AddressRead_init e stored)\<rparr>
             in (dict_getitem (addresses s') address_id, s')))"

subsection \<open>Person endpoints\<close>

definition create_person ::
    "PersonCreate \<Rightarrow> env \<Rightarrow> state \<Rightarrow> (error + PersonRead) \<times> state" where
  "create_person person e s =
     (let person_read = PersonRead_init e (PersonCreate_model_dump person);
          s' = s\<lparr>persons := dict_setitem (persons s) (p_id person_read) person_read\<rparr>
      in (Inr person_read, s'))"

definition list_persons ::
    "string option \<Rightarrow> string option \<Rightarrow> string option \<Rightarrow> string option \<Rightarrow> string option
       \<Rightarrow> string option \<Rightarrow> string option \<Rightarrow> string option
       \<Rightarrow> state \<Rightarrow> (error + PersonRead list) \<times> state" where
  "list_persons uni first_name last_name email phone birth_date city country s =
     (let results = dict_values (persons s);
          results = (case uni of None \<Rightarrow> results
                     | Some v \<Rightarrow> filter (\<lambda>p. p_uni p = Some v) results);
          results = (case first_name of None \<Rightarrow> results
                     | Some v \<Rightarrow> filter (\<lambda>p. p_first_name p = Some v) results);
          results = (case last_name of None \<Rightarrow> results
                     | Some v \<Rightarrow> filter (\<lambda>p. p_last_name p = Some v) results);
          results = (case email of None \<Rightarrow> results
                     | Some v \<Rightarrow> filter (\<lambda>p. p_email p = Some v) results);
          results = (case phone of None \<Rightarrow> results
                     | Some v \<Rightarrow> filter (\<lambda>p. p_phone p = Some v) results);
          results = (case birth_date of None \<Rightarrow> results
                     | Some v \<Rightarrow> filter (\<lambda>p. str_date (p_birth_date p) = v) results);
          results = (case city of None \<Rightarrow> results
                     | Some v \<Rightarrow>
                         filter (\<lambda>p. list_ex (\<lambda>addr. addr_city addr = Some v) (p_addresses p))
                           results);
          results = (case country of None \<Rightarrow> results
                     | Some v \<Rightarrow>
                         filter (\<lambda>p. list_ex (\<lambda>addr. addr_country addr = Some v) (p_addresses p))
                           results)
      in (Inr results, s))"

definition get_person :: "UUID \<Rightarrow> state \<Rightarrow> (error + PersonRead) \<times> state" where
  "get_person person_id s =
     (if \<not> dict_contains (persons s) person_id
      then (Inl (HTTPException 404 ''Person not found''), s)
      else (dict_getitem (persons s) person_id, s))"

definition update_person ::
    "UUID \<Rightarrow> PersonUpdate \<Rightarrow> env \<Rightarrow> state \<Rightarrow> (error + PersonRead) \<times> state" where
  "update_person person_id upd e s =
     (if \<not> dict_contains (persons s) person_id
      then (Inl (HTTPException 404 ''Person not found''), s)
      else
        (case dict_getitem (persons s) person_id of
           Inl err \<Rightarrow> (Inl err, s)
         | Inr cur \<Rightarrow>
             let stored = PersonRead_model_dump cur;
                 stored = PersonDict_update stored (PersonUpdate_model_dump_exclude_unset upd);
                 s' = s\<lparr>persons :=
                          dict_setitem (persons s) person_id (PersonRead_init e stored)\<rparr>
             in (dict_getitem (persons s') person_id, s')))"

section \<open>A concrete run\<close>

text \<open>
  One record in each store, as four create requests leave them, with the environment
  of a later request. The balance is the float 120.21.
\<close>

definition ex_family_history :: FamilyHistoryRead where
  "ex_family_history =
     \<lparr>fh_id = 1, fh_father = Some ''IBS'', fh_mother = Some ''diabetes'',
      fh_sister = Some ''diabetes'', fh_brother = None,
      fh_created_at = 100, fh_updated_at = 101\<rparr>"

definition ex_account_balance :: AccountBalanceRead where
  "ex_account_balance =
     \<lparr>ab_id = 2, ab_account_balance = Some 0x405E0D70A3D70A3D,
      ab_created_at = 200, ab_updated_at = 201\<rparr>"

definition ex_address :: AddressRead where
  "ex_address =
     \<lparr>addr_id = 3, addr_street = Some ''5th Ave'', addr_city = Some ''NYC'',
      addr_state = None, addr_postal_code = None, addr_country = Some ''USA'',
      addr_created_at = 300, addr_updated_at = 301\<rparr>"

definition ex_home :: AddressBase where
  "ex_home =
     \<lparr>addr_id = 5, addr_street = Some ''Rue de Rivoli'', addr_city = Some ''Paris'',
      addr_state = None, addr_postal_code = None, addr_country = Some ''France''\<rparr>"

definition ex_person :: PersonRead where
  "ex_person =
     \<lparr>p_id = 4, p_uni = Some ''abc1234'', p_first_name = Some ''Ada'',
      p_last_name = Some ''Lovelace'', p_email = None, p_phone = None,
      p_birth_date = Some \<lparr>date_year = 1815, date_month = 12, date_day = 10\<rparr>,
      p_addresses = [ex_home], p_created_at = 400, p_updated_at = 401\<rparr>"

definition ex_state :: state where
  "ex_state =
     \<lparr>persons = [(4, ex_person)], family_histories = [(1, ex_family_history)],
      account_balances = [(2, ex_account_balance)], addresses = [(3, ex_address)]\<rparr>"

definition ex_env :: env where
  "ex_env = \<lparr>env_uuid4 = 9, env_utcnow1 = 500, env_utcnow2 = 501\<rparr>"

text \<open>Four creation payloads with identifiers the stores do not hold yet.\<close>

definition ex_new_family_history :: FamilyHistoryCreate where
  "ex_new_family_history =
     \<lparr>fh_id = 10, fh_father = Some ''gout'', fh_mother = None, fh_sister = None,
      fh_brother = Some ''blood clots''\<rparr>"

definition ex_new_account_balance :: AccountBalanceCreate where
  "ex_new_account_balance = \<lparr>ab_id = 20, ab_account_balance = Some 0x4045400000000000\<rparr>"

definition ex_new_address :: AddressCreate where
  "ex_new_address =
     \<lparr>addr_id = 30, addr_street = Some ''Main St'', addr_city = Some ''Boston'',
      addr_state = Some ''MA'', addr_postal_code = None, addr_country = Some ''USA''\<rparr>"

definition ex_new_person :: PersonCreate where
  "ex_new_person =
     \<lparr>pc_id = None, pc_uni = Some ''gh5678'', pc_first_name = Some ''Grace'',
      pc_last_name = Some ''Hopper'', pc_email = None, pc_phone = None,
      pc_birth_date = None, pc_addresses = []\<rparr>"

text \<open>The run with a second address in the store.\<close>

definition ex_boston :: AddressRead where
  "ex_boston =
     \<lparr>addr_id = 30, addr_street = Some ''Main St'', addr_city = Some ''Boston'',
      addr_state = Some ''MA'', addr_postal_code = None, addr_country = Some ''USA'',
      addr_created_at = 500, addr_updated_at = 501\<rparr>"

definition ex_state_two :: state where
  "ex_state_two = ex_state\<lparr>addresses := [(3, ex_address), (30, ex_boston)]\<rparr>"

section \<open>The dictionary operations\<close>

lemma map_of_setitem: "map_of (dict_setitem d k v) = (map_of d)(k \<mapsto> v)"
  by (simp add: dict_setitem_def update_conv')

lemma getitem_setitem: "dict_getitem (dict_setitem d k v) k = Inr v"
  by (simp add: dict_getitem_def map_of_setitem)

lemma getitem_stored: "map_of d k = Some v \<Longrightarrow> dict_getitem d k = Inr v"
  by (simp add: dict_getitem_def)

lemma contains_stored: "map_of d k = Some v \<Longrightarrow> dict_contains d k"
  by (simp add: dict_contains_def)

lemma contains_keys: "dict_contains d k \<longleftrightarrow> k \<in> set (map fst d)"
  by (simp add: dict_contains_def map_of_eq_None_iff)

lemma keys_setitem:
  "map fst (dict_setitem d k v) = (if dict_contains d k then map fst d else map fst d @ [k])"
  by (simp add: dict_setitem_def update_keys contains_keys)


lemma wf_setitem: "dict_wf d \<Longrightarrow> dict_wf (dict_setitem d k v)"
  by (simp add: dict_wf_def dict_setitem_def distinct_update)

lemma count_key_absent: "\<not> dict_contains d k \<Longrightarrow> count_key d k = 0"
  by (induction d) (auto simp: count_key_def dict_contains_def split: if_splits)

lemma count_key_wf: "dict_wf d \<Longrightarrow> dict_contains d k \<Longrightarrow> count_key d k = 1"
proof (induction d)
  case Nil
  then show ?case by (simp add: dict_contains_def)
next
  case (Cons kv d)
  show ?case
  proof (cases "fst kv = k")
    case True
    with Cons.prems have "\<not> dict_contains d k"
      by (auto simp: dict_wf_def contains_keys)
    then have "count_key d k = 0" by (rule count_key_absent)
    with True show ?thesis by (simp add: count_key_def)
  next
    case False
    with Cons.prems have "dict_wf d" "dict_contains d k"
      by (auto simp: dict_wf_def dict_contains_def)
    with Cons.IH have "count_key d k = 1" by simp
    with False show ?thesis by (simp add: count_key_def)
  qed
qed

lemma contains_setitem: "dict_contains (dict_setitem d k v) k"
  by (simp add: dict_contains_def map_of_setitem)

lemma count_key_setitem: "dict_wf d \<Longrightarrow> count_key (dict_setitem d k v) k = 1"
  by (simp add: count_key_wf wf_setitem contains_setitem)

section \<open>What each handler computes\<close>

text \<open>
  The create handlers, with the models' constructors and dumps evaluated. Only
  \<open>create_account_balance\<close> can fail in its constructor: a payload that leaves the
  balance out dumps \<open>account_balance = None\<close>, which \<open>AccountBalanceRead\<close> refuses.
\<close>

lemma create_family_history_result:
  "create_family_history p e s =
     (if dict_contains (family_histories s) (fh_id p)
      then (Inl (HTTPException 400 ''Family History with this ID already exists''), s)
      else
        let r = \<lparr>fh_id = fh_id p, fh_father = fh_father p, fh_mother = fh_mother p,
                 fh_sister = fh_sister p, fh_brother = fh_brother p,
                 fh_created_at = env_utcnow1 e, fh_updated_at = env_utcnow2 e\<rparr>
        in (Inr r, s\<lparr>family_histories := dict_setitem (family_histories s) (fh_id p) r\<rparr>))"
  by (simp add: create_family_history_def FamilyHistoryRead_init_def
      FamilyHistoryCreate_model_dump_def getitem_setitem Let_def)

lemma create_account_balance_result:
  "create_account_balance p e s =
     (if ab_account_balance p = None then (Inl ValidationError, s)
      else
        let r = \<lparr>ab_id = ab_id p, ab_account_balance = ab_account_balance p,
                 ab_created_at = env_utcnow1 e, ab_updated_at = env_utcnow2 e\<rparr>
        in (Inr r, s\<lparr>account_balances := dict_setitem (account_balances s) (ab_id p) r\<rparr>))"
  by (simp add: create_account_balance_def AccountBalanceRead_init_def
      AccountBalanceCreate_model_dump_def getitem_setitem Let_def split: option.splits)

lemma create_address_result:
  "create_address p e s =
     (if dict_contains (addresses s) (addr_id p)
      then (Inl (HTTPException 400 ''Address with this ID already exists''), s)
      else
        let r = \<lparr>addr_id = addr_id p, addr_street = addr_street p, addr_city = addr_city p,
                 addr_state = addr_state p, addr_postal_code = addr_postal_code p,
                 addr_country = addr_country p,
                 addr_created_at = env_utcnow1 e, addr_updated_at = env_utcnow2 e\<rparr>
        in (Inr r, s\<lparr>addresses := dict_setitem (addresses s) (addr_id p) r\<rparr>))"
  by (simp add: create_address_def AddressRead_init_def
      AddressCreate_model_dump_def getitem_setitem Let_def)

lemma create_person_result:
  "create_person p e s =
     (let r = \<lparr>p_id = (case pc_id p of None \<Rightarrow> env_uuid4 e | Some v \<Rightarrow> v),
               p_uni = pc_uni p, p_first_name = pc_first_name p, p_last_name = pc_last_name p,
               p_email = pc_email p, p_phone = pc_phone p, p_birth_date = pc_birth_date p,
               p_addresses = pc_addresses p,
               p_created_at = env_utcnow1 e, p_updated_at = env_utcnow2 e\<rparr>
      in (Inr r, s\<lparr>persons := dict_setitem (persons s) (p_id r) r\<rparr>))"
  by (simp add: create_person_def PersonRead_init_def PersonCreate_model_dump_def Let_def)

text \<open>Get-by-id of a key of the store returns the record under it.\<close>

lemma get_family_history_stored:
  "map_of (family_histories s) k = Some r \<Longrightarrow> get_family_history k s = (Inr r, s)"
  by (simp add: get_family_history_def contains_stored getitem_stored)

lemma get_account_balances_stored:
  "map_of (account_balances s) k = Some r \<Longrightarrow> get_account_balances k s = (Inr r, s)"
  by (simp add: get_account_balances_def contains_stored getitem_stored)

lemma get_address_stored:
  "map_of (addresses s) k = Some r \<Longrightarrow> get_address k s = (Inr r, s)"
  by (simp add: get_address_def contains_stored getitem_stored)

lemma get_person_stored:
  "map_of (persons s) k = Some r \<Longrightarrow> get_person k s = (Inr r, s)"
  by (simp add: get_person_def contains_stored getitem_stored)

text \<open>
  The update handlers at a key of the store: the dump of the stored record, overlaid with
  the dump of the update, rebuilt and stored under the same key. Both timestamps are keys
  of the stored dump, so their default factories never run.
\<close>

lemma update_family_history_stored:
  assumes "map_of (family_histories s) k = Some cur"
  shows "update_family_history k u e s =
    (let r = \<lparr>fh_id = (case fhu_id u of None \<Rightarrow> fh_id cur | Some v \<Rightarrow> v),
               fh_father = (case fhu_father u of None \<Rightarrow> fh_father cur | Some v \<Rightarrow> v),
               fh_mother = (case fhu_mother u of None \<Rightarrow> fh_mother cur | Some v \<Rightarrow> v),
               fh_sister = (case fhu_sister u of None \<Rightarrow> fh_sister cur | Some v \<Rightarrow> v),
               fh_brother = (case fhu_brother u of None \<Rightarrow> fh_brother cur | Some v \<Rightarrow> v),
               fh_created_at = fh_created_at cur, fh_updated_at = fh_updated_at cur\<rparr>
     in (Inr r, s\<lparr>family_histories := dict_setitem (family_histories s) k r\<rparr>))"
  using assms
  by (simp add: update_family_history_def contains_stored getitem_stored getitem_setitem
      Let_def FamilyHistoryRead_init_def FamilyHistoryDict_update_def
      FamilyHistoryRead_model_dump_def FamilyHistoryUpdate_model_dump_exclude_unset_def
      overlay_def split: option.splits)

lemma update_account_balance_stored:
  assumes "map_of (account_balances s) k = Some cur"
  shows "update_account_balance k u e s =
    (let b = (case abu_account_balance u of None \<Rightarrow> ab_account_balance cur | Some v \<Rightarrow> v)
     in if b = None then (Inl ValidationError, s)
        else
          let r = \<lparr>ab_id = (case abu_id u of None \<Rightarrow> ab_id cur | Some v \<Rightarrow> v),
                    ab_account_balance = b,
                    ab_created_at = ab_created_at cur, ab_updated_at = ab_updated_at cur\<rparr>
          in (Inr r, s\<lparr>account_balances := dict_setitem (account_balances s) k r\<rparr>))"
  using assms
  by (simp add: update_account_balance_def contains_stored getitem_stored getitem_setitem
      Let_def AccountBalanceRead_init_def AccountBalanceDict_update_def
      AccountBalanceRead_model_dump_def AccountBalanceUpdate_model_dump_exclude_unset_def
      overlay_def split: option.splits)







text \<open>
  The list handlers: filtering step by step, one optional filter after the other, is
  filtering once by the conjunction.
\<close>

lemma filter_case_option:
  "(case f of None \<Rightarrow> xs | Some v \<Rightarrow> filter (P v) xs) =
     filter (\<lambda>x. case f of None \<Rightarrow> True | Some v \<Rightarrow> P v x) xs"
  by (cases f) simp_all

lemma get_family_histories_filter:
  "get_family_histories father mother sister brother s =
     (Inr (filter (\<lambda>p. (case father of None \<Rightarrow> True | Some v \<Rightarrow> fh_father p = Some v)
                     \<and> (case mother of None \<Rightarrow> True | Some v \<Rightarrow> fh_mother p = Some v)
                     \<and> (case sister of None \<Rightarrow> True | Some v \<Rightarrow> fh_sister p = Some v)
                     \<and> (case brother of None \<Rightarrow> True | Some v \<Rightarrow> fh_brother p = Some v))
             (dict_values (family_histories s))), s)"
  by (simp add: get_family_histories_def Let_def filter_case_option conj_assoc)

lemma get_account_balance_filter:
  "get_account_balance account_balance s =
     (Inr (filter (\<lambda>p. case account_balance of None \<Rightarrow> True
                        | Some v \<Rightarrow> (case ab_account_balance p of None \<Rightarrow> False
                                     | Some b \<Rightarrow> float_eq b v))
             (dict_values (account_balances s))), s)"
  by (simp add: get_account_balance_def Let_def filter_case_option)

lemma list_addresses_filter:
  "list_addresses street city state postal_code country s =
     (Inr (filter (\<lambda>a. (case street of None \<Rightarrow> True | Some v \<Rightarrow> addr_street a = Some v)
                     \<and> (case city of None \<Rightarrow> True | Some v \<Rightarrow> addr_city a = Some v)
                     \<and> (case state of None \<Rightarrow> True | Some v \<Rightarrow> addr_state a = Some v)
                     \<and> (case postal_code of None \<Rightarrow> True | Some v \<Rightarrow> addr_postal_code a = Some v)
                     \<and> (case country of None \<Rightarrow> True | Some v \<Rightarrow> addr_country a = Some v))
             (dict_values (addresses s))), s)"
  by (simp add: list_addresses_def Let_def filter_case_option conj_assoc)

lemma list_persons_filter:
  "list_persons uni first_name last_name email phone birth_date city country s =
     (Inr (filter (\<lambda>p. (case uni of None \<Rightarrow> True | Some v \<Rightarrow> p_uni p = Some v)
                     \<and> (case first_name of None \<Rightarrow> True | Some v \<Rightarrow> p_first_name p = Some v)
                     \<and> (case last_name of None \<Rightarrow> True | Some v \<Rightarrow> p_last_name p = Some v)
                     \<and> (case email of None \<Rightarrow> True | Some v \<Rightarrow> p_email p = Some v)
                     \<and> (case phone of None \<Rightarrow> True | Some v \<Rightarrow> p_phone p = Some v)
                     \<and> (case birth_date of None \<Rightarrow> True
                         | Some v \<Rightarrow> str_date (p_birth_date p) = v)
                     \<and> (case city of None \<Rightarrow> True
                         | Some v \<Rightarrow> \<exists>addr \<in> set (p_addresses p). addr_city addr = Some v)
                     \<and> (case country of None \<Rightarrow> True
                         | Some v \<Rightarrow> \<exists>addr \<in> set (p_addresses p). addr_country addr = Some v))
             (dict_values (persons s))), s)"
  by (simp add: list_persons_def Let_def filter_case_option conj_assoc list_ex_iff
      cong: option.case_cong)

text \<open>
  Get-by-id returns a record exactly when the store maps the identifier to it, and, the
  keys being distinct, the values of a store are the records that get-by-id can return.
\<close>

lemma values_stored_iff:
  "dict_wf d \<Longrightarrow> r \<in> set (map snd d) \<longleftrightarrow> (\<exists>k. map_of d k = Some r)"
  by (force simp: dict_wf_def)

lemma filter_values_stored:
  "dict_wf d \<Longrightarrow> set (filter P (map snd d)) = {r. (\<exists>k. map_of d k = Some r) \<and> P r}"
  using values_stored_iff [of d] by auto

lemma get_family_history_iff:
  "get_family_history k s = (Inr r, s) \<longleftrightarrow> map_of (family_histories s) k = Some r"
  by (auto simp: get_family_history_def dict_contains_def dict_getitem_def split: option.splits)

lemma get_account_balances_iff:
  "get_account_balances k s = (Inr r, s) \<longleftrightarrow> map_of (account_balances s) k = Some r"
  by (auto simp: get_account_balances_def dict_contains_def dict_getitem_def split: option.splits)

lemma get_address_iff:
  "get_address k s = (Inr r, s) \<longleftrightarrow> map_of (addresses s) k = Some r"
  by (auto simp: get_address_def dict_contains_def dict_getitem_def split: option.splits)

lemma get_person_iff:
  "get_person k s = (Inr r, s) \<longleftrightarrow> map_of (persons s) k = Some r"
  by (auto simp: get_person_def dict_contains_def dict_getitem_def split: option.splits)

text \<open>After a successful create, the returned record is stored under its identifier.\<close>

lemma create_family_history_get:
  assumes "create_family_history p e s = (Inr r, s')"
  shows "dict_contains (family_histories s') (fh_id r)
       \<and> get_family_history (fh_id r) s' = (Inr r, s')
       \<and> (dict_wf (family_histories s) \<longrightarrow>
            dict_wf (family_histories s') \<and> count_key (family_histories s') (fh_id r) = 1)"
proof -
  from assms have nd: "\<not> dict_contains (family_histories s) (fh_id p)"
    by (auto simp: create_family_history_result split: if_splits)
  with assms have s': "s' = s\<lparr>family_histories := dict_setitem (family_histories s) (fh_id p) r\<rparr>"
    and id: "fh_id r = fh_id p"
    by (auto simp: create_family_history_result Let_def)
  have m: "map_of (family_histories s') (fh_id r) = Some r"
    by (simp add: s' id map_of_setitem)
  show ?thesis
    using m by (simp add: contains_stored get_family_history_stored)
      (simp add: s' id wf_setitem count_key_setitem)
qed

lemma create_account_balance_get:
  assumes "create_account_balance p e s = (Inr r, s')"
  shows "dict_contains (account_balances s') (ab_id r)
       \<and> get_account_balances (ab_id r) s' = (Inr r, s')
       \<and> (dict_wf (account_balances s) \<longrightarrow>
            dict_wf (account_balances s') \<and> count_key (account_balances s') (ab_id r) = 1)"
proof -
  from assms have nd: "ab_account_balance p \<noteq> None"
    by (auto simp: create_account_balance_result split: if_splits)
  with assms have s': "s' = s\<lparr>account_balances := dict_setitem (account_balances s) (ab_id p) r\<rparr>"
    and id: "ab_id r = ab_id p"
    by (auto simp: create_account_balance_result Let_def)
  have m: "map_of (account_balances s') (ab_id r) = Some r"
    by (simp add: s' id map_of_setitem)
  show ?thesis
    using m by (simp add: contains_stored get_account_balances_stored)
      (simp add: s' id wf_setitem count_key_setitem)
qed

lemma create_address_get:
  assumes "create_address p e s = (Inr r, s')"
  shows "dict_contains (addresses s') (addr_id r)
       \<and> get_address (addr_id r) s' = (Inr r, s')
       \<and> (dict_wf (addresses s) \<longrightarrow>
            dict_wf (addresses s') \<and> count_key (addresses s') (addr_id r) = 1)"
proof -
  from assms have nd: "\<not> dict_contains (addresses s) (addr_id p)"
    by (auto simp: create_address_result split: if_splits)
  with assms have s': "s' = s\<lparr>addresses := dict_setitem (addresses s) (addr_id p) r\<rparr>"
    and id: "addr_id r = addr_id p"
    by (auto simp: create_address_result Let_def)
  have m: "map_of (addresses s') (addr_id r) = Some r"
    by (simp add: s' id map_of_setitem)
  show ?thesis
    using m by (simp add: contains_stored get_address_stored)
      (simp add: s' id wf_setitem count_key_setitem)
qed

lemma create_person_get:
  assumes "create_person p e s = (Inr r, s')"
  shows "dict_contains (persons s') (p_id r)
       \<and> get_person (p_id r) s' = (Inr r, s')
       \<and> (dict_wf (persons s) \<longrightarrow>
            dict_wf (persons s') \<and> count_key (persons s') (p_id r) = 1)"
proof -
  from assms have s': "s' = s\<lparr>persons := dict_setitem (persons s) (p_id r) r\<rparr>"
    by (auto simp: create_person_result Let_def)
  have m: "map_of (persons s') (p_id r) = Some r"
    by (subst s') (simp add: map_of_setitem)
  show ?thesis
    using m by (simp add: contains_stored get_person_stored)
      (subst s', subst s', simp add: wf_setitem count_key_setitem)
qed

section \<open>The concrete run, checked\<close>

lemmas ex_defs = ex_state_def ex_env_def ex_family_history_def ex_account_balance_def
  ex_address_def ex_home_def ex_person_def ex_new_family_history_def
  ex_new_account_balance_def ex_new_address_def ex_new_person_def ex_boston_def
  ex_state_two_def

text \<open>The stores of the run are what four create requests make of the empty stores.\<close>

lemma ex_state_reachable:
  "snd (create_person \<lparr>pc_id = Some 4, pc_uni = Some ''abc1234'', pc_first_name = Some ''Ada'',
          pc_last_name = Some ''Lovelace'', pc_email = None, pc_phone = None,
          pc_birth_date = Some \<lparr>date_year = 1815, date_month = 12, date_day = 10\<rparr>,
          pc_addresses = [ex_home]\<rparr> \<lparr>env_uuid4 = 8, env_utcnow1 = 400, env_utcnow2 = 401\<rparr>
     (snd (create_address \<lparr>addr_id = 3, addr_street = Some ''5th Ave'', addr_city = Some ''NYC'',
          addr_state = None, addr_postal_code = None, addr_country = Some ''USA''\<rparr>
          \<lparr>env_uuid4 = 7, env_utcnow1 = 300, env_utcnow2 = 301\<rparr>
     (snd (create_account_balance \<lparr>ab_id = 2, ab_account_balance = Some 0x405E0D70A3D70A3D\<rparr>
          \<lparr>env_uuid4 = 6, env_utcnow1 = 200, env_utcnow2 = 201\<rparr>
     (snd (create_family_history \<lparr>fh_id = 1, fh_father = Some ''IBS'', fh_mother = Some ''diabetes'',
          fh_sister = Some ''diabetes'', fh_brother = None\<rparr>
          \<lparr>env_uuid4 = 5, env_utcnow1 = 100, env_utcnow2 = 101\<rparr> init_state))))))) = ex_state"
  by (simp add: create_person_result create_address_result create_account_balance_result
      create_family_history_result init_state_def ex_defs dict_contains_def dict_setitem_def
      Let_def)

text \<open>Python's \<open>str\<close> of a date, and \<open>==\<close> on floats at the two zeros and at a NaN.\<close>

lemma str_date_examples:
  "str_date (Some \<lparr>date_year = 1815, date_month = 12, date_day = 10\<rparr>) = ''1815-12-10''"
  "str_date (Some \<lparr>date_year = 987, date_month = 3, date_day = 5\<rparr>) = ''0987-03-05''"
  "str_date None = ''None''"
  by (simp_all add: str_date_def date_isoformat_def digit_def)

lemma float_eq_examples:
  "float_eq 0 0x8000000000000000"
  "\<not> float_eq 0x7FF8000000000000 0x7FF8000000000000"
  "float_eq 0x405E0D70A3D70A3D 0x405E0D70A3D70A3D"
  "\<not> float_eq 0x405E0D70A3D70A3D 0x4045400000000000"
  by (simp_all add: float_eq_def float_is_nan_def float_is_zero_def)

section \<open>Properties of the handlers\<close>




text \<open>
  C2. In the FamilyHistory and Address stores, create with a payload whose identifier is
  already a key of the store raises \<open>HTTPException(400, "... already exists")\<close>, and
  the stores after the call are the stores before it: the record under that identifier
  and every other entry are as they were, and the store has not grown.
\<close>

theorem create_duplicate_id_conflict:
  "(dict_contains (family_histories s) (fh_id family_history) \<longrightarrow>
      create_family_history family_history e s =
        (Inl (HTTPException 400 ''Family History with this ID already exists''), s))
   \<and> (dict_contains (addresses s) (addr_id address) \<longrightarrow>
      create_address address e s =
        (Inl (HTTPException 400 ''Address with this ID already exists''), s))"
  by (simp add: create_family_history_def create_address_def)

theorem create_duplicate_id_conflict_witness:
  "dict_contains (family_histories ex_state) 1
   \<and> create_family_history
        \<lparr>fh_id = 1, fh_father = Some ''gout'', fh_mother = None, fh_sister = None,
         fh_brother = None\<rparr> ex_env ex_state =
        (Inl (HTTPException 400 ''Family History with this ID already exists''), ex_state)
   \<and> map_of (family_histories ex_state) 1 = Some ex_family_history
   \<and> dict_contains (addresses ex_state) 3
   \<and> create_address
        \<lparr>addr_id = 3, addr_street = Some ''Main St'', addr_city = Some ''Boston'',
         addr_state = None, addr_postal_code = None, addr_country = Some ''USA''\<rparr>
        ex_env ex_state =
        (Inl (HTTPException 400 ''Address with this ID already exists''), ex_state)
   \<and> map_of (addresses ex_state) 3 = Some ex_address"
  using create_duplicate_id_conflict [of ex_state
      "\<lparr>fh_id = 1, fh_father = Some ''gout'', fh_mother = None, fh_sister = None,
         fh_brother = None\<rparr>" ex_env
      "\<lparr>addr_id = 3, addr_street = Some ''Main St'', addr_city = Some ''Boston'',
         addr_state = None, addr_postal_code = None, addr_country = Some ''USA''\<rparr>"]
  by (simp add: ex_state_def dict_contains_def)

text \<open>
  C3. In every store, patch with an identifier that is not a key of the store raises
  \<open>HTTPException(404, ...)\<close> and the stores after the call are the stores before it.
\<close>

theorem patch_unknown_id_not_found:
  "(\<not> dict_contains (family_histories s) history_id \<longrightarrow>
      update_family_history history_id fu e s =
        (Inl (HTTPException 404 ''Family history not found''), s))
   \<and> (\<not> dict_contains (account_balances s) account_id \<longrightarrow>
      update_account_balance account_id bu e s =
        (Inl (HTTPException 404 ''Account balance not found''), s))
   \<and> (\<not> dict_contains (addresses s) address_id \<longrightarrow>
      update_address address_id au e s = (Inl (HTTPException 404 ''Address not found''), s))
   \<and> (\<not> dict_contains (persons s) person_id \<longrightarrow>
      update_person person_id pu e s = (Inl (HTTPException 404 ''Person not found''), s))"
  by (simp add: update_family_history_def update_account_balance_def update_address_def
      update_person_def)

theorem patch_unknown_id_not_found_witness:
  "\<not> dict_contains (family_histories ex_state) 77
   \<and> update_family_history 77
        \<lparr>fhu_id = None, fhu_father = Some (Some ''gout''), fhu_mother = None, fhu_sister = None,
         fhu_brother = None\<rparr> ex_env ex_state =
        (Inl (HTTPException 404 ''Family history not found''), ex_state)
   \<and> \<not> dict_contains (account_balances ex_state) 77
   \<and> update_account_balance 77
        \<lparr>abu_id = None, abu_account_balance = Some (Some 0x4045400000000000)\<rparr> ex_env ex_state =
        (Inl (HTTPException 404 ''Account balance not found''), ex_state)
   \<and> \<not> dict_contains (addresses ex_state) 77
   \<and> update_address 77
        \<lparr>addru_street = None, addru_city = Some (Some ''Boston''), addru_state = None,
         addru_postal_code = None, addru_country = None\<rparr> ex_env ex_state =
        (Inl (HTTPException 404 ''Address not found''), ex_state)
   \<and> \<not> dict_contains (persons ex_state) 77
   \<and> update_person 77
        \<lparr>pu_uni = None, pu_first_name = Some (Some ''Grace''), pu_last_name = None,
         pu_email = None, pu_phone = None, pu_birth_date = None, pu_addresses = None\<rparr>
        ex_env ex_state =
        (Inl (HTTPException 404 ''Person not found''), ex_state)"
  using patch_unknown_id_not_found [of ex_state 77
      "\<lparr>fhu_id = None, fhu_father = Some (Some ''gout''), fhu_mother = None, fhu_sister = None,
         fhu_brother = None\<rparr>" ex_env 77
      "\<lparr>abu_id = None, abu_account_balance = Some (Some 0x4045400000000000)\<rparr>" 77
      "\<lparr>addru_street = None, addru_city = Some (Some ''Boston''), addru_state = None,
         addru_postal_code = None, addru_country = None\<rparr>" 77
      "\<lparr>pu_uni = None, pu_first_name = Some (Some ''Grace''), pu_last_name = None,
         pu_email = None, pu_phone = None, pu_birth_date = None, pu_addresses = None\<rparr>"]
  by (simp add: ex_state_def dict_contains_def)

text \<open>
  C4. The claim is that a record's identifier never changes, so that each key of a store
  is the \<open>id\<close> of the record under it. \<open>FamilyHistoryUpdate\<close> and
  \<open>AccountBalanceUpdate\<close> inherit the field \<open>id\<close> from their base models, although
  their docstrings say that the identifier comes from the path and not from the body. A
  patch whose body sets \<open>id\<close> therefore stores, under the old key, a record that carries
  the new identifier; get-by-id with the old key then returns it. In the run: the family
  history stored under 1 is patched with \<open>id = 2\<close>, the account balance stored under 2
  with \<open>id = 3\<close>.
\<close>

theorem patch_with_body_id_changes_identifier:
  "map_of (family_histories ex_state) 1 = Some ex_family_history
   \<and> fh_id ex_family_history = 1
   \<and> update_family_history 1
        \<lparr>fhu_id = Some 2, fhu_father = None, fhu_mother = None, fhu_sister = None,
         fhu_brother = None\<rparr> ex_env ex_state =
       (Inr (ex_family_history\<lparr>fh_id := 2\<rparr>),
        ex_state\<lparr>family_histories := [(1, ex_family_history\<lparr>fh_id := 2\<rparr>)]\<rparr>)
   \<and> get_family_history 1
        (ex_state\<lparr>family_histories := [(1, ex_family_history\<lparr>fh_id := 2\<rparr>)]\<rparr>) =
       (Inr (ex_family_history\<lparr>fh_id := 2\<rparr>),
        ex_state\<lparr>family_histories := [(1, ex_family_history\<lparr>fh_id := 2\<rparr>)]\<rparr>)
   \<and> fh_id (ex_family_history\<lparr>fh_id := 2\<rparr>) \<noteq> 1
   \<and> map_of (account_balances ex_state) 2 = Some ex_account_balance
   \<and> ab_id ex_account_balance = 2
   \<and> update_account_balance 2 \<lparr>abu_id = Some 3, abu_account_balance = None\<rparr> ex_env ex_state =
       (Inr (ex_account_balance\<lparr>ab_id := 3\<rparr>),
        ex_state\<lparr>account_balances := [(2, ex_account_balance\<lparr>ab_id := 3\<rparr>)]\<rparr>)"
  by (simp add: ex_defs update_family_history_stored update_account_balance_stored
      get_family_history_def dict_contains_def dict_getitem_def dict_setitem_def Let_def)

text \<open>
  C5. The claim is that a successful patch sets \<open>updated_at\<close> to the current time and
  keeps \<open>created_at\<close>. The field is described as the last update timestamp, but the
  handler rebuilds the record from a dump that holds the old \<open>updated_at\<close>, so the
  default factory that reads the clock does not run. In the run: the record was last written at
  101, the clock reads 500 and 501, and after the patch \<open>updated_at\<close> is still 101
  (\<open>created_at\<close> is still 100).
\<close>

theorem patch_keeps_updated_at:
  "map_of (family_histories ex_state) 1 = Some ex_family_history
   \<and> fh_updated_at ex_family_history = 101
   \<and> env_utcnow1 ex_env = 500 \<and> env_utcnow2 ex_env = 501
   \<and> update_family_history 1
        \<lparr>fhu_id = None, fhu_father = Some (Some ''gout''), fhu_mother = None, fhu_sister = None,
         fhu_brother = None\<rparr> ex_env ex_state =
       (Inr (ex_family_history\<lparr>fh_father := Some ''gout''\<rparr>),
        ex_state\<lparr>family_histories := [(1, ex_family_history\<lparr>fh_father := Some ''gout''\<rparr>)]\<rparr>)
   \<and> fh_updated_at (ex_family_history\<lparr>fh_father := Some ''gout''\<rparr>) = 101
   \<and> fh_created_at (ex_family_history\<lparr>fh_father := Some ''gout''\<rparr>) = 100"
  by (simp add: ex_defs update_family_history_stored dict_setitem_def Let_def)

text \<open>
  C6, as amended. In the AccountBalance and Person stores create has no duplicate check
  and never raises an \<open>HTTPException\<close>. For every AccountBalance payload that carries a
  balance, and every Person payload, whose identifier is already a key of the store,
  create succeeds, the record it built replaces the one under that key, every other
  entry stays, and the keys of the store are the same: the store has not grown.
\<close>

theorem create_replaces_without_duplicate_check:
  "(\<forall>c m. fst (create_account_balance bp e s) \<noteq> Inl (HTTPException c m))
   \<and> (\<forall>c m. fst (create_person pp e s) \<noteq> Inl (HTTPException c m))
   \<and> (dict_contains (account_balances s) (ab_id bp) \<and> ab_account_balance bp \<noteq> None \<longrightarrow>
        (\<exists>r. create_account_balance bp e s =
               (Inr r, s\<lparr>account_balances := dict_setitem (account_balances s) (ab_id bp) r\<rparr>)
           \<and> ab_id r = ab_id bp \<and> ab_account_balance r = ab_account_balance bp
           \<and> map_of (account_balances (snd (create_account_balance bp e s))) =
               (map_of (account_balances s))(ab_id bp \<mapsto> r)
           \<and> map fst (account_balances (snd (create_account_balance bp e s))) =
               map fst (account_balances s)))
   \<and> (pc_id pp = Some k \<and> dict_contains (persons s) k \<longrightarrow>
        (\<exists>r. create_person pp e s = (Inr r, s\<lparr>persons := dict_setitem (persons s) k r\<rparr>)
           \<and> p_id r = k
           \<and> map_of (persons (snd (create_person pp e s))) = (map_of (persons s))(k \<mapsto> r)
           \<and> map fst (persons (snd (create_person pp e s))) = map fst (persons s)))"
  by (simp add: create_account_balance_result create_person_result Let_def map_of_setitem
      keys_setitem)

text \<open>
  As the claim is worded, for every payload whose identifier is in the store, it fails: an
  AccountBalance payload that leaves the balance out has \<open>account_balance = None\<close>, its
  dump passes that \<open>None\<close> to \<open>AccountBalanceRead\<close>, which refuses it before the
  store is written. Create raises and the record under the identifier is not replaced.
\<close>

theorem create_without_balance_fails:
  "dict_contains (account_balances ex_state) 2
   \<and> create_account_balance \<lparr>ab_id = 2, ab_account_balance = None\<rparr> ex_env ex_state =
       (Inl ValidationError, ex_state)
   \<and> map_of (account_balances ex_state) 2 = Some ex_account_balance"
  by (simp add: create_account_balance_result ex_state_def dict_contains_def)

theorem create_replaces_without_duplicate_check_witness:
  "dict_contains (account_balances ex_state) 2
   \<and> create_account_balance \<lparr>ab_id = 2, ab_account_balance = Some 0x4045400000000000\<rparr>
        ex_env ex_state =
       (Inr \<lparr>ab_id = 2, ab_account_balance = Some 0x4045400000000000,
             ab_created_at = 500, ab_updated_at = 501\<rparr>,
        ex_state\<lparr>account_balances :=
          [(2, \<lparr>ab_id = 2, ab_account_balance = Some 0x4045400000000000,
                ab_created_at = 500, ab_updated_at = 501\<rparr>)]\<rparr>)
   \<and> dict_contains (persons ex_state) 4
   \<and> create_person (ex_new_person\<lparr>pc_id := Some 4\<rparr>) ex_env ex_state =
       (Inr (PersonRead_init ex_env (PersonCreate_model_dump (ex_new_person\<lparr>pc_id := Some 4\<rparr>))),
        ex_state\<lparr>persons :=
          [(4, PersonRead_init ex_env
                 (PersonCreate_model_dump (ex_new_person\<lparr>pc_id := Some 4\<rparr>)))]\<rparr>)"
  using create_replaces_without_duplicate_check [of
      "\<lparr>ab_id = 2, ab_account_balance = Some 0x4045400000000000\<rparr>" ex_env ex_state
      "ex_new_person\<lparr>pc_id := Some 4\<rparr>" 4]
  by (simp add: ex_defs create_account_balance_result create_person_result dict_contains_def
      dict_setitem_def PersonRead_init_def PersonCreate_model_dump_def Let_def)

text \<open>
  C7. In every store, list returns the stored records that satisfy the conjunction of the
  equality tests of the filters that are supplied, and no others; a filter that is
  absent tests nothing, and list without filters returns all stored records. The stored
  records are the second components of the store's entries, in the order of the store;
  with distinct keys, as the keys of a \<open>dict\<close> are, they are the records that
  get-by-id returns for some identifier, and the result of list is that set filtered.
  The equality is Python's: a field that is \<open>None\<close> equals no filter value, floats
  compare as floats, a birth date is compared through its \<open>str\<close>, and the city and
  country filters of a person ask for some embedded address with that value.
\<close>

theorem list_returns_conjunction_of_filters:
  "(let P = (\<lambda>p. (case father of None \<Rightarrow> True | Some v \<Rightarrow> fh_father p = Some v)
               \<and> (case mother of None \<Rightarrow> True | Some v \<Rightarrow> fh_mother p = Some v)
               \<and> (case sister of None \<Rightarrow> True | Some v \<Rightarrow> fh_sister p = Some v)
               \<and> (case brother of None \<Rightarrow> True | Some v \<Rightarrow> fh_brother p = Some v))
    in fst (get_family_histories father mother sister brother s) =
         Inr (filter P (map snd (family_histories s)))
       \<and> fst (get_family_histories None None None None s) = Inr (map snd (family_histories s))
       \<and> (dict_wf (family_histories s) \<longrightarrow>
            (\<exists>rs. fst (get_family_histories father mother sister brother s) = Inr rs
               \<and> set rs = {r. (\<exists>k. get_family_history k s = (Inr r, s)) \<and> P r})
            \<and> (\<exists>rs. fst (get_family_histories None None None None s) = Inr rs
               \<and> set rs = {r. \<exists>k. get_family_history k s = (Inr r, s)})))
   \<and> (let P = (\<lambda>p. case account_balance of None \<Rightarrow> True
                    | Some v \<Rightarrow> (case ab_account_balance p of None \<Rightarrow> False
                                 | Some b \<Rightarrow> float_eq b v))
    in fst (get_account_balance account_balance s) =
         Inr (filter P (map snd (account_balances s)))
       \<and> fst (get_account_balance None s) = Inr (map snd (account_balances s))
       \<and> (dict_wf (account_balances s) \<longrightarrow>
            (\<exists>rs. fst (get_account_balance account_balance s) = Inr rs
               \<and> set rs = {r. (\<exists>k. get_account_balances k s = (Inr r, s)) \<and> P r})
            \<and> (\<exists>rs. fst (get_account_balance None s) = Inr rs
               \<and> set rs = {r. \<exists>k. get_account_balances k s = (Inr r, s)})))
   \<and> (let P = (\<lambda>a. (case street of None \<Rightarrow> True | Some v \<Rightarrow> addr_street a = Some v)
               \<and> (case city of None \<Rightarrow> True | Some v \<Rightarrow> addr_city a = Some v)
               \<and> (case state of None \<Rightarrow> True | Some v \<Rightarrow> addr_state a = Some v)
               \<and> (case postal_code of None \<Rightarrow> True | Some v \<Rightarrow> addr_postal_code a = Some v)
               \<and> (case country of None \<Rightarrow> True | Some v \<Rightarrow> addr_country a = Some v))
    in fst (list_addresses street city state postal_code country s) =
         Inr (filter P (map snd (addresses s)))
       \<and> fst (list_addresses None None None None None s) = Inr (map snd (addresses s))
       \<and> (dict_wf (addresses s) \<longrightarrow>
            (\<exists>rs. fst (list_addresses street city state postal_code country s) = Inr rs
               \<and> set rs = {r. (\<exists>k. get_address k s = (Inr r, s)) \<and> P r})
            \<and> (\<exists>rs. fst (list_addresses None None None None None s) = Inr rs
               \<and> set rs = {r. \<exists>k. get_address k s = (Inr r, s)})))
   \<and> (let P = (\<lambda>p. (case uni of None \<Rightarrow> True | Some v \<Rightarrow> p_uni p = Some v)
               \<and> (case first_name of None \<Rightarrow> True | Some v \<Rightarrow> p_first_name p = Some v)
               \<and> (case last_name of None \<Rightarrow> True | Some v \<Rightarrow> p_last_name p = Some v)
               \<and> (case email of None \<Rightarrow> True | Some v \<Rightarrow> p_email p = Some v)
               \<and> (case phone of None \<Rightarrow> True | Some v \<Rightarrow> p_phone p = Some v)
               \<and> (case birth_date of None \<Rightarrow> True
                   | Some v \<Rightarrow> str_date (p_birth_date p) = v)
               \<and> (case pcity of None \<Rightarrow> True
                   | Some v \<Rightarrow> \<exists>addr \<in> set (p_addresses p). addr_city addr = Some v)
               \<and> (case pcountry of None \<Rightarrow> True
                   | Some v \<Rightarrow> \<exists>addr \<in> set (p_addresses p). addr_country addr = Some v))
    in fst (list_persons uni first_name last_name email phone birth_date pcity pcountry s) =
         Inr (filter P (map snd (persons s)))
       \<and> fst (list_persons None None None None None None None None s) =
           Inr (map snd (persons s))
       \<and> (dict_wf (persons s) \<longrightarrow>
            (\<exists>rs. fst (list_persons uni first_name last_name email phone birth_date pcity
                         pcountry s) = Inr rs
               \<and> set rs = {r. (\<exists>k. get_person k s = (Inr r, s)) \<and> P r})
            \<and> (\<exists>rs. fst (list_persons None None None None None None None None s) = Inr rs
               \<and> set rs = {r. \<exists>k. get_person k s = (Inr r, s)})))"
proof -
  have fh: "dict_wf (family_histories s) \<Longrightarrow>
      set (filter P (map snd (family_histories s))) =
        {r. (\<exists>k. get_family_history k s = (Inr r, s)) \<and> P r}" for P
    by (simp only: filter_values_stored get_family_history_iff)
  have ab: "dict_wf (account_balances s) \<Longrightarrow>
      set (filter P (map snd (account_balances s))) =
        {r. (\<exists>k. get_account_balances k s = (Inr r, s)) \<and> P r}" for P
    by (simp only: filter_values_stored get_account_balances_iff)
  have ad: "dict_wf (addresses s) \<Longrightarrow>
      set (filter P (map snd (addresses s))) =
        {r. (\<exists>k. get_address k s = (Inr r, s)) \<and> P r}" for P
    by (simp only: filter_values_stored get_address_iff)
  have pe: "dict_wf (persons s) \<Longrightarrow>
      set (filter P (map snd (persons s))) =
        {r. (\<exists>k. get_person k s = (Inr r, s)) \<and> P r}" for P
    by (simp only: filter_values_stored get_person_iff)
  show ?thesis
    unfolding Let_def
  proof (intro conjI impI)
    show "fst (get_family_histories None None None None s) = Inr (map snd (family_histories s))"
      by (simp add: get_family_histories_filter dict_values_def)
  qed (use fh ab ad pe fh [of "\<lambda>_. True"] ab [of "\<lambda>_. True"] ad [of "\<lambda>_. True"]
        pe [of "\<lambda>_. True"]
       in \<open>simp_all add: get_family_histories_filter get_account_balance_filter
             list_addresses_filter list_persons_filter dict_values_def\<close>)
qed

theorem list_returns_conjunction_of_filters_witness:
  "dict_wf (family_histories ex_state_two) \<and> dict_wf (account_balances ex_state_two)
   \<and> dict_wf (addresses ex_state_two) \<and> dict_wf (persons ex_state_two)
   \<and> get_address 3 ex_state_two = (Inr ex_address, ex_state_two)
   \<and> get_address 30 ex_state_two = (Inr ex_boston, ex_state_two)
   \<and> fst (list_addresses None (Some ''NYC'') None None (Some ''USA'') ex_state_two) =
       Inr [ex_address]
   \<and> fst (list_addresses None None None None (Some ''USA'') ex_state_two) =
       Inr [ex_address, ex_boston]
   \<and> fst (list_addresses None (Some ''Boston'') None None (Some ''France'') ex_state_two) =
       Inr []
   \<and> fst (list_addresses None None None None None ex_state_two) = Inr [ex_address, ex_boston]
   \<and> fst (get_family_histories (Some ''IBS'') None (Some ''diabetes'') None ex_state_two) =
       Inr [ex_family_history]
   \<and> fst (get_family_histories (Some ''IBS'') None None (Some ''diabetes'') ex_state_two) =
       Inr []
   \<and> fst (get_family_histories None None None None ex_state_two) = Inr [ex_family_history]
   \<and> fst (get_account_balance (Some 0x405E0D70A3D70A3D) ex_state_two) =
       Inr [ex_account_balance]
   \<and> fst (get_account_balance (Some 0x4045400000000000) ex_state_two) = Inr []
   \<and> fst (get_account_balance None ex_state_two) = Inr [ex_account_balance]
   \<and> fst (list_persons (Some ''abc1234'') None None None None (Some ''1815-12-10'')
             (Some ''Paris'') (Some ''France'') ex_state_two) = Inr [ex_person]
   \<and> fst (list_persons None None None None None None (Some ''Paris'') (Some ''USA'')
             ex_state_two) = Inr []
   \<and> fst (list_persons None None None None None None None None ex_state_two) =
       Inr [ex_person]"
  using list_returns_conjunction_of_filters [where s = ex_state_two
      and father = "Some ''IBS''" and mother = None and sister = "Some ''diabetes''"
      and brother = None and account_balance = "Some 0x405E0D70A3D70A3D"
      and street = None and city = "Some ''NYC''" and state = None and postal_code = None
      and country = "Some ''USA''" and uni = "Some ''abc1234''" and first_name = None
      and last_name = None and email = None and phone = None
      and birth_date = "Some ''1815-12-10''" and pcity = "Some ''Paris''"
      and pcountry = "Some ''France''"]
  by (simp add: ex_defs dict_wf_def get_address_def
      dict_contains_def dict_getitem_def list_addresses_def get_family_histories_def
      get_account_balance_def list_persons_def dict_values_def Let_def float_eq_def
      float_is_nan_def float_is_zero_def str_date_def date_isoformat_def digit_def)



text \<open>
  C9. In every store, after a create that succeeds the identifier of the returned record
  is a key of the store, get-by-id with it returns that record, and, the keys of the
  store being distinct as the keys of a \<open>dict\<close> are, they still are and the identifier
  is the key of exactly one entry.
\<close>

theorem create_then_get_round_trip:
  "(create_family_history fp e s = (Inr fr, s1) \<longrightarrow>
      dict_contains (family_histories s1) (fh_id fr)
      \<and> get_family_history (fh_id fr) s1 = (Inr fr, s1)
      \<and> (dict_wf (family_histories s) \<longrightarrow>
           dict_wf (family_histories s1) \<and> count_key (family_histories s1) (fh_id fr) = 1))
   \<and> (create_account_balance bp e s = (Inr br, s2) \<longrightarrow>
      dict_contains (account_balances s2) (ab_id br)
      \<and> get_account_balances (ab_id br) s2 = (Inr br, s2)
      \<and> (dict_wf (account_balances s) \<longrightarrow>
           dict_wf (account_balances s2) \<and> count_key (account_balances s2) (ab_id br) = 1))
   \<and> (create_address ap e s = (Inr ar, s3) \<longrightarrow>
      dict_contains (addresses s3) (addr_id ar)
      \<and> get_address (addr_id ar) s3 = (Inr ar, s3)
      \<and> (dict_wf (addresses s) \<longrightarrow>
           dict_wf (addresses s3) \<and> count_key (addresses s3) (addr_id ar) = 1))
   \<and> (create_person pp e s = (Inr pr, s4) \<longrightarrow>
      dict_contains (persons s4) (p_id pr)
      \<and> get_person (p_id pr) s4 = (Inr pr, s4)
      \<and> (dict_wf (persons s) \<longrightarrow>
           dict_wf (persons s4) \<and> count_key (persons s4) (p_id pr) = 1))"
  using create_family_history_get [of fp e s fr s1]
    create_account_balance_get [of bp e s br s2]
    create_address_get [of ap e s ar s3]
    create_person_get [of pp e s pr s4]
  by blast

theorem create_then_get_round_trip_witness:
  "create_family_history ex_new_family_history ex_env ex_state =
     (Inr (FamilyHistoryRead_init ex_env (FamilyHistoryCreate_model_dump ex_new_family_history)),
      ex_state\<lparr>family_histories :=
        [(1, ex_family_history),
         (10, FamilyHistoryRead_init ex_env (FamilyHistoryCreate_model_dump ex_new_family_history))]\<rparr>)
   \<and> dict_wf (family_histories ex_state)
   \<and> get_family_history 10 (snd (create_family_history ex_new_family_history ex_env ex_state)) =
       create_family_history ex_new_family_history ex_env ex_state
   \<and> count_key
        (family_histories (snd (create_family_history ex_new_family_history ex_env ex_state))) 10 = 1
   \<and> fst (create_account_balance ex_new_account_balance ex_env ex_state) =
       Inr \<lparr>ab_id = 20, ab_account_balance = Some 0x4045400000000000,
            ab_created_at = 500, ab_updated_at = 501\<rparr>
   \<and> dict_wf (account_balances ex_state)
   \<and> get_account_balances 20
        (snd (create_account_balance ex_new_account_balance ex_env ex_state)) =
       create_account_balance ex_new_account_balance ex_env ex_state
   \<and> count_key
        (account_balances (snd (create_account_balance ex_new_account_balance ex_env ex_state)))
        20 = 1
   \<and> fst (create_address ex_new_address ex_env ex_state) =
       Inr (AddressRead_init ex_env (AddressCreate_model_dump ex_new_address))
   \<and> dict_wf (addresses ex_state)
   \<and> get_address 30 (snd (create_address ex_new_address ex_env ex_state)) =
       create_address ex_new_address ex_env ex_state
   \<and> count_key (addresses (snd (create_address ex_new_address ex_env ex_state))) 30 = 1
   \<and> fst (create_person ex_new_person ex_env ex_state) =
       Inr (PersonRead_init ex_env (PersonCreate_model_dump ex_new_person))
   \<and> p_id (PersonRead_init ex_env (PersonCreate_model_dump ex_new_person)) = 9
   \<and> dict_wf (persons ex_state)
   \<and> get_person 9 (snd (create_person ex_new_person ex_env ex_state)) =
       create_person ex_new_person ex_env ex_state
   \<and> count_key (persons (snd (create_person ex_new_person ex_env ex_state))) 9 = 1"
  using create_then_get_round_trip [of ex_new_family_history ex_env ex_state
      "FamilyHistoryRead_init ex_env (FamilyHistoryCreate_model_dump ex_new_family_history)"
      "snd (create_family_history ex_new_family_history ex_env ex_state)"
      ex_new_account_balance
      "\<lparr>ab_id = 20, ab_account_balance = Some 0x4045400000000000,
            ab_created_at = 500, ab_updated_at = 501\<rparr>"
      "snd (create_account_balance ex_new_account_balance ex_env ex_state)"
      ex_new_address
      "AddressRead_init ex_env (AddressCreate_model_dump ex_new_address)"
      "snd (create_address ex_new_address ex_env ex_state)"
      ex_new_person
      "PersonRead_init ex_env (PersonCreate_model_dump ex_new_person)"
      "snd (create_person ex_new_person ex_env ex_state)"]
  by (simp add: ex_defs create_family_history_def create_account_balance_def create_address_def
      create_person_def get_family_history_def get_account_balances_def get_address_def
      get_person_def dict_contains_def dict_getitem_def dict_setitem_def dict_wf_def
      count_key_def FamilyHistoryRead_init_def FamilyHistoryCreate_model_dump_def
      AccountBalanceRead_init_def AccountBalanceCreate_model_dump_def AddressRead_init_def
      AddressCreate_model_dump_def PersonRead_init_def PersonCreate_model_dump_def Let_def)

text \<open>
  C10. The read handlers, get-by-id (found or not) and list (with any filters), of all
  four resources return the four stores as they received them.
\<close>

theorem reads_leave_stores_unchanged:
  "snd (get_family_history history_id s) = s
   \<and> snd (get_account_balances account_id s) = s
   \<and> snd (get_address address_id s) = s
   \<and> snd (get_person person_id s) = s
   \<and> snd (get_family_histories father mother sister brother s) = s
   \<and> snd (get_account_balance account_balance s) = s
   \<and> snd (list_addresses street city state postal_code country s) = s
   \<and> snd (list_persons uni first_name last_name email phone birth_date pcity pcountry s) = s"
  by (simp add: get_family_history_def get_account_balances_def get_address_def get_person_def
      get_family_histories_def get_account_balance_def list_addresses_def list_persons_def
      Let_def)

end
